theory Spec2Isabelle
  imports Main
begin

section \<open>A control interface to wpa\_supplicant: the model of wpasupplicant.go\<close>

text \<open>
  The package talks to the wpa\_supplicant daemon over a Unix datagram socket: every
  operation writes one request datagram and reads one reply datagram. The model keeps the
  program's structure: a nullable pointer is an \<open>option\<close>, a Go \<open>error\<close> is an
  \<open>error option\<close> (\<open>None\<close> is \<open>nil\<close>), a Go \<open>string\<close> and a \<open>[]byte\<close> are byte
  lists (\<open>string\<close>), a Go \<open>int\<close> is an \<open>int\<close> (the platform's 64 bits matter only
  in \<open>strconv.Atoi\<close>, where the range check is written out). The socket and the file
  system are the \<open>world\<close>, passed through every call and returned updated.
\<close>

subsection \<open>Data\<close>

text \<open>\<open>type KeyFormat int\<close> with \<open>KeyASCII = iota\<close> and \<open>KeyHex = iota\<close> of one
  \<open>const\<close> block: the constants 0 and 1 of an integer type, which has other values.\<close>

type_synonym KeyFormat = int

definition KeyASCII :: KeyFormat where
  "KeyASCII = 0"

definition KeyHex :: KeyFormat where
  "KeyHex = 1"

text \<open>\<open>*net.UnixConn\<close>: the socket, named by its descriptor.\<close>

type_synonym UnixConn = nat

text \<open>\<open>type Conn struct { uconn *net.UnixConn; localSock string }\<close>. The methods take a
  \<open>*Conn\<close>, which may be nil: a \<open>Conn option\<close>.\<close>

record Conn =
  uconn :: "UnixConn option"
  localSock :: string

text \<open>Error values, by what the program can observe of them: \<open>syscall.EINVAL\<close>; an error
  of the net or os package, with its message; the error \<open>fmt.Errorf\<close> returns, whose
  message is the formatted text; the \<open>*strconv.NumError\<close> of \<open>strconv.Atoi\<close> with its
  fields \<open>Func\<close>, \<open>Num\<close> and \<open>Err\<close>.\<close>

datatype num_err = ErrSyntax | ErrRange

datatype error =
    EINVAL
  | SysError string
  | Errorf string
  | NumError string string num_err

text \<open>A call either returns or panics (a nil pointer dereference).\<close>

datatype 'a outcome = Panics | Returns 'a

subsection \<open>The socket and the file system\<close>

text \<open>
  What lies outside the program. \<open>written\<close> is the list of payloads passed to
  \<open>uconn.Write\<close>, oldest first, \<open>closes\<close> the number of calls of \<open>uconn.Close\<close>,
  \<open>removed\<close> the paths passed to \<open>os.Remove\<close>. The outcome of each system call is the
  environment's: \<open>write_result\<close> gives, from the payloads written before and the payload,
  the byte count and error message of \<open>Write\<close>; \<open>read_result\<close> gives, from the payloads
  written so far, the datagram \<open>Read\<close> receives and its error message;
  \<open>close_result\<close> gives the error message of the next \<open>Close\<close> from the number of
  earlier ones; \<open>remove_result\<close> that of \<open>os.Remove\<close> on a path. A \<open>Read\<close> returns in
  this model: a daemon that never replies blocks the caller for ever, and no such run is
  described here.
\<close>

record world =
  written :: "string list"
  write_result :: "string list \<Rightarrow> string \<Rightarrow> int \<times> string option"
  read_result :: "string list \<Rightarrow> string \<times> string option"
  closes :: nat
  close_result :: "nat \<Rightarrow> string option"
  removed :: "string list"
  remove_result :: "string \<Rightarrow> string option"

text \<open>\<open>n, err = c.uconn.Write([]byte(msg))\<close>\<close>

definition uconn_Write :: "string \<Rightarrow> world \<Rightarrow> (int \<times> string option) \<times> world" where
  "uconn_Write msg w = (write_result w (written w) msg, w\<lparr>written := written w @ [msg]\<rparr>)"

text \<open>\<open>n, err = c.uconn.Read(reply)\<close> into a buffer of \<open>n\<close> bytes, returning
  \<open>reply[:n]\<close>: a datagram longer than the buffer is cut.\<close>

definition uconn_Read :: "nat \<Rightarrow> world \<Rightarrow> (string \<times> string option) \<times> world" where
  "uconn_Read n w =
     (case read_result w (written w) of (dgram, err) \<Rightarrow> ((take n dgram, err), w))"

text \<open>\<open>c.uconn.Close()\<close>\<close>

definition uconn_Close :: "world \<Rightarrow> string option \<times> world" where
  "uconn_Close w = (close_result w (closes w), w\<lparr>closes := Suc (closes w)\<rparr>)"

text \<open>\<open>os.Remove(name)\<close>\<close>

definition os_Remove :: "string \<Rightarrow> world \<Rightarrow> string option \<times> world" where
  "os_Remove name w = (remove_result w name, w\<lparr>removed := removed w @ [name]\<rparr>)"

subsection \<open>Formatting and parsing: fmt, strings, strconv\<close>

text \<open>\<open>%v\<close> of an \<open>int\<close>: its decimal digits, with a minus sign when negative.\<close>

definition digit :: "nat \<Rightarrow> char" where
  "digit n = ''0123456789'' ! n"

function utoa :: "nat \<Rightarrow> string" where
  "utoa n = (if n < 10 then [digit n] else utoa (n div 10) @ [digit (n mod 10)])"
  by pat_completeness auto
termination
  by (relation "measure id") auto

declare utoa.simps [simp del]

definition itoa :: "int \<Rightarrow> string" where
  "itoa i = (if i < 0 then CHR ''-'' # utoa (nat (- i)) else utoa (nat i))"

text \<open>\<open>%v\<close> of an \<open>error\<close> that a system call returned: \<open><nil>\<close> for nil, its message
  otherwise.\<close>

definition fmt_error :: "string option \<Rightarrow> string" where
  "fmt_error err = (case err of None \<Rightarrow> ''<nil>'' | Some m \<Rightarrow> m)"

text \<open>\<open>strings.Count(s, sep)\<close> for a separator of one byte, which is how the program calls
  it: the number of bytes of \<open>s\<close> equal to it.\<close>

definition Count :: "string \<Rightarrow> char \<Rightarrow> int" where
  "Count s sep = int (length (filter (\<lambda>c. c = sep) s))"

text \<open>
  \<open>strings.TrimSpace\<close> removes the white space of Unicode from both ends. A rune is
  white space (\<open>unicode.IsSpace\<close>) when it is one of tab, line feed, vertical tab, form
  feed, carriage return, space, U+0085, U+00A0, U+1680, U+2000 to U+200A, U+2028, U+2029,
  U+202F, U+205F, U+3000; \<open>spaces\<close> lists their UTF-8 encodings.
\<close>

definition spaces :: "string list" where
  "spaces =
     [[CHR 0x09], [CHR 0x0A], [CHR 0x0B], [CHR 0x0C], [CHR 0x0D], [CHR 0x20],
      [CHR 0xC2, CHR 0x85], [CHR 0xC2, CHR 0xA0], [CHR 0xE1, CHR 0x9A, CHR 0x80],
      [CHR 0xE2, CHR 0x80, CHR 0x80], [CHR 0xE2, CHR 0x80, CHR 0x81],
      [CHR 0xE2, CHR 0x80, CHR 0x82], [CHR 0xE2, CHR 0x80, CHR 0x83],
      [CHR 0xE2, CHR 0x80, CHR 0x84], [CHR 0xE2, CHR 0x80, CHR 0x85],
      [CHR 0xE2, CHR 0x80, CHR 0x86], [CHR 0xE2, CHR 0x80, CHR 0x87],
      [CHR 0xE2, CHR 0x80, CHR 0x88], [CHR 0xE2, CHR 0x80, CHR 0x89],
      [CHR 0xE2, CHR 0x80, CHR 0x8A], [CHR 0xE2, CHR 0x80, CHR 0xA8],
      [CHR 0xE2, CHR 0x80, CHR 0xA9], [CHR 0xE2, CHR 0x80, CHR 0xAF],
      [CHR 0xE2, CHR 0x81, CHR 0x9F], [CHR 0xE3, CHR 0x80, CHR 0x80]]"

text \<open>The first of the patterns \<open>ps\<close> that \<open>s\<close> starts with, the empty pattern left
  out.\<close>

definition leading :: "string list \<Rightarrow> string \<Rightarrow> string option" where
  "leading ps s = find (\<lambda>p. p \<noteq> [] \<and> take (length p) s = p) ps"

function trimLeft :: "string list \<Rightarrow> string \<Rightarrow> string" where
  "trimLeft ps s =
     (case leading ps s of None \<Rightarrow> s | Some p \<Rightarrow> trimLeft ps (drop (length p) s))"
  by pat_completeness auto
termination
proof (relation "measure (\<lambda>(ps, s). length s)")
  show "wf (measure (\<lambda>(ps, s). length s))"
    by simp
next
  fix ps :: "string list" and s p :: string
  assume "leading ps s = Some p"
  then have "p \<noteq> []" and "take (length p) s = p"
    by (auto simp: leading_def find_Some_iff)
  then have "s \<noteq> []"
    by auto
  with \<open>p \<noteq> []\<close> show "((ps, drop (length p) s), (ps, s)) \<in> measure (\<lambda>(ps, s). length s)"
    by simp
qed

declare trimLeft.simps [simp del]

definition TrimSpace :: "string \<Rightarrow> string" where
  "TrimSpace s = rev (trimLeft (map rev spaces) (rev (trimLeft spaces s)))"

text \<open>
  \<open>strconv.Atoi\<close> on a platform whose \<open>int\<close> has 64 bits. \<open>parseUint\<close> is the digit loop
  of \<open>strconv.ParseUint(s, 10, 64)\<close>: a byte that is no decimal digit is a syntax error,
  a value past \<open>2^64 - 1\<close> a range error, found in the order of the bytes. \<open>Atoi\<close> takes
  the sign off, checks the range of \<open>int64\<close> and returns the nearest bound with a range
  error, 0 with a syntax error.
\<close>

definition isDigit :: "char \<Rightarrow> bool" where
  "isDigit c = ((of_char CHR ''0'' :: nat) \<le> of_char c \<and> (of_char c :: nat) \<le> of_char CHR ''9'')"

definition digitVal :: "char \<Rightarrow> nat" where
  "digitVal c = of_char c - of_char CHR ''0''"

definition maxUint64 :: nat where
  "maxUint64 = 2 ^ 64 - 1"

fun parseUint :: "nat \<Rightarrow> string \<Rightarrow> num_err + nat" where
  "parseUint n [] = Inr n"
| "parseUint n (c # cs) =
     (if \<not> isDigit c then Inl ErrSyntax
      else if maxUint64 div 10 + 1 \<le> n then Inl ErrRange
      else if maxUint64 < n * 10 + digitVal c then Inl ErrRange
      else parseUint (n * 10 + digitVal c) cs)"

definition Atoi :: "string \<Rightarrow> int \<times> error option" where
  "Atoi s =
     (case s of
        [] \<Rightarrow> (0, Some (NumError ''Atoi'' s ErrSyntax))
      | c # cs \<Rightarrow>
          (let neg = (c = CHR ''-'');
               body = (if c = CHR ''+'' \<or> c = CHR ''-'' then cs else s)
           in if body = [] then (0, Some (NumError ''Atoi'' s ErrSyntax))
              else (case parseUint 0 body of
                      Inl ErrSyntax \<Rightarrow> (0, Some (NumError ''Atoi'' s ErrSyntax))
                    | Inl ErrRange \<Rightarrow>
                        (if neg then - (2 ^ 63) else 2 ^ 63 - 1, Some (NumError ''Atoi'' s ErrRange))
                    | Inr un \<Rightarrow>
                        if \<not> neg \<and> 2 ^ 63 \<le> un
                        then (2 ^ 63 - 1, Some (NumError ''Atoi'' s ErrRange))
                        else if neg \<and> 2 ^ 63 < un
                        then (- (2 ^ 63), Some (NumError ''Atoi'' s ErrRange))
                        else (if neg then - int un else int un, None))))"

subsection \<open>The transaction layer\<close>

text \<open>\<open>func (c *Conn) ok() bool { return c != nil && c.uconn != nil }\<close>\<close>

definition ok :: "Conn option \<Rightarrow> bool" where
  "ok c = (case c of None \<Rightarrow> False | Some conn \<Rightarrow> uconn conn \<noteq> None)"

text \<open>
  \<open>Close\<close>: the socket is closed under the guard \<open>c.ok()\<close>; \<open>os.Remove(c.localSock)\<close>
  stands after the guard, reads the field of \<open>c\<close> whatever \<open>c\<close> is, and its result is
  dropped. Reading a field of a nil pointer panics.
\<close>

definition Close :: "Conn option \<Rightarrow> world \<Rightarrow> (error option \<times> world) outcome" where
  "Close c w =
     (case (if ok c
            then (case c of
                    None \<Rightarrow> Panics
                  | Some conn \<Rightarrow>
                      (case uconn conn of
                         None \<Rightarrow> Panics
                       | Some s \<Rightarrow>
                           (case uconn_Close w of
                              (cerr, w1) \<Rightarrow> Returns (map_option SysError cerr, w1))))
            else Returns (None, w)) of
        Panics \<Rightarrow> Panics
      | Returns (err, w1) \<Rightarrow>
          (case c of
             None \<Rightarrow> Panics
           | Some conn \<Rightarrow> Returns (err, snd (os_Remove (localSock conn) w1))))"

text \<open>
  \<open>sendRequest\<close>: EINVAL on a connection that is not ok, with nothing written; else one
  \<open>Write\<close>, which must report no error and the whole length, then one \<open>Read\<close> into a
  buffer of 4096 bytes. The named result \<open>reply\<close> is nil, the empty byte list, on the two
  early returns.
\<close>

definition sendRequest ::
  "Conn option \<Rightarrow> string \<Rightarrow> world \<Rightarrow> ((string \<times> error option) \<times> world) outcome" where
  "sendRequest c msg w =
     (if \<not> ok c then Returns (([], Some EINVAL), w)
      else (case c of
              None \<Rightarrow> Panics
            | Some conn \<Rightarrow>
                (case uconn conn of
                   None \<Rightarrow> Panics
                 | Some s \<Rightarrow>
                     (case uconn_Write msg w of
                        ((n, err), w1) \<Rightarrow>
                          if err \<noteq> None \<or> n \<noteq> int (length msg)
                          then Returns
                            (([], Some (Errorf (''Error sending request: '' @ fmt_error err))), w1)
                          else (case uconn_Read 4096 w1 of
                                  ((reply, rerr), w2) \<Rightarrow>
                                    Returns ((reply, map_option SysError rerr), w2))))))"

text \<open>\<open>checkReplyOk\<close>: \<open>fmt.Errorf("%v", string(reply))\<close> unless the reply is the three
  bytes \<open>OK\<newline>\<close>.\<close>

definition checkReplyOk :: "string \<Rightarrow> error option" where
  "checkReplyOk reply =
     (if \<not> (''OK\<newline>'' = reply) then Some (Errorf reply) else None)"

definition sendRequestOk :: "Conn option \<Rightarrow> string \<Rightarrow> world \<Rightarrow> (error option \<times> world) outcome" where
  "sendRequestOk c msg w =
     (case sendRequest c msg w of
        Panics \<Rightarrow> Panics
      | Returns ((reply, err), w1) \<Rightarrow>
          if err \<noteq> None then Returns (err, w1) else Returns (checkReplyOk reply, w1))"

subsection \<open>The commands\<close>

definition SetNetwork ::
  "Conn option \<Rightarrow> int \<Rightarrow> string \<Rightarrow> string \<Rightarrow> world \<Rightarrow> (error option \<times> world) outcome" where
  "SetNetwork c nid field val w =
     sendRequestOk c (''SET_NETWORK '' @ itoa nid @ '' '' @ field @ '' '' @ val) w"

definition SetNetworkQuoted ::
  "Conn option \<Rightarrow> int \<Rightarrow> string \<Rightarrow> string \<Rightarrow> world \<Rightarrow> (error option \<times> world) outcome" where
  "SetNetworkQuoted c nid field val w = SetNetwork c nid field ([CHR 0x22] @ val @ [CHR 0x22]) w"

text \<open>
  \<open>SetNetworkWepKeys\<close>: the loop \<open>for i, value := range keys\<close>, with \<open>i\<close> the index of the
  key at the head of the list. The \<open>switch\<close> has the two cases \<open>KeyASCII\<close> and \<open>KeyHex\<close>
  and no default: any other format goes on to the next key.
\<close>

fun wepKeysFrom ::
  "Conn option \<Rightarrow> int \<Rightarrow> KeyFormat \<Rightarrow> nat \<Rightarrow> string list \<Rightarrow> world \<Rightarrow> (error option \<times> world) outcome" where
  "wepKeysFrom c nid format i [] w = Returns (None, w)"
| "wepKeysFrom c nid format i (val # keys) w =
     (if format = KeyASCII
      then (case SetNetworkQuoted c nid (''wep_key'' @ utoa i) val w of
              Panics \<Rightarrow> Panics
            | Returns (err, w1) \<Rightarrow>
                if err \<noteq> None then Returns (err, w1)
                else wepKeysFrom c nid format (Suc i) keys w1)
      else if format = KeyHex
      then (case SetNetwork c nid (''wep_key'' @ utoa i) val w of
              Panics \<Rightarrow> Panics
            | Returns (err, w1) \<Rightarrow>
                if err \<noteq> None then Returns (err, w1)
                else wepKeysFrom c nid format (Suc i) keys w1)
      else wepKeysFrom c nid format (Suc i) keys w)"

definition SetNetworkWepKeys ::
  "Conn option \<Rightarrow> int \<Rightarrow> KeyFormat \<Rightarrow> string list \<Rightarrow> world \<Rightarrow> (error option \<times> world) outcome" where
  "SetNetworkWepKeys c nid format keys w = wepKeysFrom c nid format 0 keys w"

definition GetNetwork ::
  "Conn option \<Rightarrow> int \<Rightarrow> string \<Rightarrow> world \<Rightarrow> ((string \<times> error option) \<times> world) outcome" where
  "GetNetwork c nid field w =
     (case sendRequest c (''GET_NETWORK '' @ itoa nid @ '' '' @ field) w of
        Panics \<Rightarrow> Panics
      | Returns ((reply, err), w1) \<Rightarrow>
          if err \<noteq> None then Returns (([], err), w1) else Returns ((reply, None), w1))"

text \<open>\<open>AddNetwork\<close>: \<open>-1\<close> with the error of a failed transaction; otherwise whatever
  \<open>strconv.Atoi(strings.TrimSpace(string(reply)))\<close> returns, value and error.\<close>

definition AddNetwork :: "Conn option \<Rightarrow> world \<Rightarrow> ((int \<times> error option) \<times> world) outcome" where
  "AddNetwork c w =
     (case sendRequest c ''ADD_NETWORK'' w of
        Panics \<Rightarrow> Panics
      | Returns ((reply, err), w1) \<Rightarrow>
          if err \<noteq> None then Returns ((- 1, err), w1)
          else Returns (Atoi (TrimSpace reply), w1))"

definition RemoveNetwork :: "Conn option \<Rightarrow> int \<Rightarrow> world \<Rightarrow> (error option \<times> world) outcome" where
  "RemoveNetwork c nid w = sendRequestOk c (''REMOVE_NETWORK '' @ itoa nid) w"

definition RemoveAllNetworks :: "Conn option \<Rightarrow> world \<Rightarrow> (error option \<times> world) outcome" where
  "RemoveAllNetworks c w = sendRequestOk c ''REMOVE_NETWORK all'' w"

definition SetGlobalParameter ::
  "Conn option \<Rightarrow> string \<Rightarrow> string \<Rightarrow> world \<Rightarrow> (error option \<times> world) outcome" where
  "SetGlobalParameter c field val w = sendRequestOk c (''SET '' @ field @ '' '' @ val) w"

definition SelectNetwork :: "Conn option \<Rightarrow> int \<Rightarrow> world \<Rightarrow> (error option \<times> world) outcome" where
  "SelectNetwork c nid w = sendRequestOk c (''SELECT_NETWORK '' @ itoa nid) w"

definition EnableNetwork :: "Conn option \<Rightarrow> int \<Rightarrow> world \<Rightarrow> (error option \<times> world) outcome" where
  "EnableNetwork c nid w = sendRequestOk c (''ENABLE_NETWORK '' @ itoa nid) w"

definition EnableAllNetworks :: "Conn option \<Rightarrow> world \<Rightarrow> (error option \<times> world) outcome" where
  "EnableAllNetworks c w = sendRequestOk c ''ENABLE_NETWORK all'' w"

definition DisableNetwork :: "Conn option \<Rightarrow> int \<Rightarrow> world \<Rightarrow> (error option \<times> world) outcome" where
  "DisableNetwork c nid w = sendRequestOk c (''DISABLE_NETWORK '' @ itoa nid) w"

definition DisableAllNetworks :: "Conn option \<Rightarrow> world \<Rightarrow> (error option \<times> world) outcome" where
  "DisableAllNetworks c w = sendRequestOk c ''DISABLE_NETWORK all'' w"

definition Reassociate :: "Conn option \<Rightarrow> world \<Rightarrow> (error option \<times> world) outcome" where
  "Reassociate c w = sendRequestOk c ''REASSOCIATE'' w"

definition Reconnect :: "Conn option \<Rightarrow> world \<Rightarrow> (error option \<times> world) outcome" where
  "Reconnect c w = sendRequestOk c ''RECONNECT'' w"

text \<open>\<open>ListNetworks\<close> and the other text queries return \<open>string(reply), err\<close> as
  \<open>sendRequest\<close> gave them.\<close>

definition ListNetworks :: "Conn option \<Rightarrow> world \<Rightarrow> ((string \<times> error option) \<times> world) outcome" where
  "ListNetworks c w = sendRequest c ''LIST_NETWORKS'' w"

text \<open>\<open>NumOfNetworks\<close>: \<open>0\<close> with the error of a failed \<open>ListNetworks\<close>; otherwise
  \<open>strings.Count(reply, "\n") - 1\<close>, the header line left out of the count.\<close>

definition NumOfNetworks :: "Conn option \<Rightarrow> world \<Rightarrow> ((int \<times> error option) \<times> world) outcome" where
  "NumOfNetworks c w =
     (case ListNetworks c w of
        Panics \<Rightarrow> Panics
      | Returns ((reply, err), w1) \<Rightarrow>
          if err \<noteq> None then Returns ((0, err), w1)
          else Returns ((Count reply (CHR 0x0A) - 1, None), w1))"

definition Reconfigure :: "Conn option \<Rightarrow> world \<Rightarrow> (error option \<times> world) outcome" where
  "Reconfigure c w = sendRequestOk c ''RECONFIGURE'' w"

definition Status :: "Conn option \<Rightarrow> world \<Rightarrow> ((string \<times> error option) \<times> world) outcome" where
  "Status c w = sendRequest c ''STATUS'' w"

definition StatusVerbose :: "Conn option \<Rightarrow> world \<Rightarrow> ((string \<times> error option) \<times> world) outcome" where
  "StatusVerbose c w = sendRequest c ''STATUS-VERBOSE'' w"

text \<open>\<open>Ping\<close>: \<open>fmt.Errorf("Received unexpected reply: %v", string(reply))\<close> unless the
  reply is the five bytes \<open>PONG\<newline>\<close>.\<close>

definition Ping :: "Conn option \<Rightarrow> world \<Rightarrow> (error option \<times> world) outcome" where
  "Ping c w =
     (case sendRequest c ''PING'' w of
        Panics \<Rightarrow> Panics
      | Returns ((reply, err), w1) \<Rightarrow>
          if err \<noteq> None then Returns (err, w1)
          else if \<not> (''PONG\<newline>'' = reply)
          then Returns (Some (Errorf (''Received unexpected reply: '' @ reply)), w1)
          else Returns (None, w1))"

definition SaveConfig :: "Conn option \<Rightarrow> world \<Rightarrow> (error option \<times> world) outcome" where
  "SaveConfig c w = sendRequestOk c ''SAVE_CONFIG'' w"

definition Interfaces :: "Conn option \<Rightarrow> world \<Rightarrow> ((string \<times> error option) \<times> world) outcome" where
  "Interfaces c w = sendRequest c ''INTERFACES'' w"

definition Ifname :: "Conn option \<Rightarrow> world \<Rightarrow> ((string \<times> error option) \<times> world) outcome" where
  "Ifname c w = sendRequest c ''IFNAME'' w"

definition BSS :: "Conn option \<Rightarrow> int \<Rightarrow> world \<Rightarrow> ((string \<times> error option) \<times> world) outcome" where
  "BSS c nid w = sendRequest c (''BSS '' @ itoa nid) w"

subsection \<open>The commands as one family\<close>

text \<open>
  A call of one of the commands with its arguments, and what it returns beside the error:
  nothing, a text or an integer. \<open>invoke\<close> runs the call; it is the means of speaking of
  every command at once.
\<close>

datatype operation =
    OpSetNetwork int string string
  | OpSetNetworkQuoted int string string
  | OpSetNetworkWepKeys int KeyFormat "string list"
  | OpGetNetwork int string
  | OpAddNetwork
  | OpRemoveNetwork int
  | OpRemoveAllNetworks
  | OpSetGlobalParameter string string
  | OpSelectNetwork int
  | OpEnableNetwork int
  | OpEnableAllNetworks
  | OpDisableNetwork int
  | OpDisableAllNetworks
  | OpReassociate
  | OpReconnect
  | OpListNetworks
  | OpNumOfNetworks
  | OpReconfigure
  | OpStatus
  | OpStatusVerbose
  | OpPing
  | OpSaveConfig
  | OpInterfaces
  | OpIfname
  | OpBSS int

datatype retval = NoValue | TextValue string | IntValue int

definition no_value ::
  "(error option \<times> world) outcome \<Rightarrow> ((retval \<times> error option) \<times> world) outcome" where
  "no_value r = (case r of Panics \<Rightarrow> Panics | Returns (err, w) \<Rightarrow> Returns ((NoValue, err), w))"

definition text_value ::
  "((string \<times> error option) \<times> world) outcome \<Rightarrow> ((retval \<times> error option) \<times> world) outcome" where
  "text_value r =
     (case r of Panics \<Rightarrow> Panics | Returns ((s, err), w) \<Rightarrow> Returns ((TextValue s, err), w))"

definition int_value ::
  "((int \<times> error option) \<times> world) outcome \<Rightarrow> ((retval \<times> error option) \<times> world) outcome" where
  "int_value r =
     (case r of Panics \<Rightarrow> Panics | Returns ((i, err), w) \<Rightarrow> Returns ((IntValue i, err), w))"

fun invoke ::
  "operation \<Rightarrow> Conn option \<Rightarrow> world \<Rightarrow> ((retval \<times> error option) \<times> world) outcome" where
  "invoke (OpSetNetwork nid field val) c w = no_value (SetNetwork c nid field val w)"
| "invoke (OpSetNetworkQuoted nid field val) c w = no_value (SetNetworkQuoted c nid field val w)"
| "invoke (OpSetNetworkWepKeys nid format keys) c w =
     no_value (SetNetworkWepKeys c nid format keys w)"
| "invoke (OpGetNetwork nid field) c w = text_value (GetNetwork c nid field w)"
| "invoke OpAddNetwork c w = int_value (AddNetwork c w)"
| "invoke (OpRemoveNetwork nid) c w = no_value (RemoveNetwork c nid w)"
| "invoke OpRemoveAllNetworks c w = no_value (RemoveAllNetworks c w)"
| "invoke (OpSetGlobalParameter field val) c w = no_value (SetGlobalParameter c field val w)"
| "invoke (OpSelectNetwork nid) c w = no_value (SelectNetwork c nid w)"
| "invoke (OpEnableNetwork nid) c w = no_value (EnableNetwork c nid w)"
| "invoke OpEnableAllNetworks c w = no_value (EnableAllNetworks c w)"
| "invoke (OpDisableNetwork nid) c w = no_value (DisableNetwork c nid w)"
| "invoke OpDisableAllNetworks c w = no_value (DisableAllNetworks c w)"
| "invoke OpReassociate c w = no_value (Reassociate c w)"
| "invoke OpReconnect c w = no_value (Reconnect c w)"
| "invoke OpListNetworks c w = text_value (ListNetworks c w)"
| "invoke OpNumOfNetworks c w = int_value (NumOfNetworks c w)"
| "invoke OpReconfigure c w = no_value (Reconfigure c w)"
| "invoke OpStatus c w = text_value (Status c w)"
| "invoke OpStatusVerbose c w = text_value (StatusVerbose c w)"
| "invoke OpPing c w = no_value (Ping c w)"
| "invoke OpSaveConfig c w = no_value (SaveConfig c w)"
| "invoke OpInterfaces c w = text_value (Interfaces c w)"
| "invoke OpIfname c w = text_value (Ifname c w)"
| "invoke (OpBSS nid) c w = text_value (BSS c nid w)"

text \<open>The calls that reach no request: \<open>SetNetworkWepKeys\<close> with no key, or with a format
  that is neither of the two constants.\<close>

fun sends_nothing :: "operation \<Rightarrow> bool" where
  "sends_nothing (OpSetNetworkWepKeys nid format keys) =
     (keys = [] \<or> (format \<noteq> KeyASCII \<and> format \<noteq> KeyHex))"
| "sends_nothing other = False"

subsection \<open>A daemon to run the program against\<close>

text \<open>
  \<open>scripted replies\<close> is a world in which every \<open>Write\<close> succeeds in full, the k-th
  request is answered by the k-th of \<open>replies\<close> (by the empty datagram past the end of
  the list), the first \<open>Close\<close> succeeds and a later one fails, and \<open>os.Remove\<close>
  succeeds. \<open>broken replies\<close> differs in that closing the socket and removing a file
  both fail. \<open>conn0\<close> is a connection as \<open>Connect\<close> returns it; \<open>unbound\<close> is the one it
  returns beside the error when \<open>net.DialUnix\<close> failed.
\<close>

definition scripted :: "string list \<Rightarrow> world" where
  "scripted replies =
     \<lparr>written = [],
      write_result = (\<lambda>h m. (int (length m), None)),
      read_result = (\<lambda>h. (case drop (length h - 1) replies of [] \<Rightarrow> [] | r # rs \<Rightarrow> r, None)),
      closes = 0,
      close_result = (\<lambda>k. if k = 0 then None else Some ''use of closed network connection''),
      removed = [],
      remove_result = (\<lambda>name. None)\<rparr>"

definition broken :: "string list \<Rightarrow> world" where
  "broken replies =
     (scripted replies)
       \<lparr>close_result := (\<lambda>k. Some ''input/output error''),
        remove_result := (\<lambda>name. Some ''permission denied'')\<rparr>"

definition conn0 :: "Conn option" where
  "conn0 = Some \<lparr>uconn = Some 3, localSock = ''/tmp/wpa_supplicant123''\<rparr>"

definition unbound :: "Conn option" where
  "unbound = Some \<lparr>uconn = None, localSock = ''/tmp/wpa_supplicant123''\<rparr>"

text \<open>A reply to \<open>LIST_NETWORKS\<close>: the header line and two networks.\<close>

definition listing :: string where
  "listing = ''network id / ssid / bssid / flags\<newline>0 foo any\<newline>1 bar any\<newline>''"

section \<open>Properties\<close>

subsection \<open>The transaction\<close>

lemma sendRequest_not_ok:
  "\<not> ok c \<Longrightarrow> sendRequest c msg w = Returns (([], Some EINVAL), w)"
  by (simp add: sendRequest_def)

lemma sendRequest_ok_writes:
  assumes "ok c"
  shows "\<exists>r w1. sendRequest c msg w = Returns (r, w1) \<and> written w1 = written w @ [msg]"
proof -
  from assms obtain conn s where c: "c = Some conn" and s: "uconn conn = Some s"
    by (auto simp: ok_def split: option.splits)
  show ?thesis
    using assms
    by (simp add: sendRequest_def c s uconn_Write_def uconn_Read_def split: prod.splits)
qed

text \<open>On a valid connection, when \<open>Write\<close> takes the whole message and \<open>Read\<close> receives a
  datagram, the transaction succeeds with the first 4096 bytes of the datagram.\<close>

lemma sendRequest_success:
  assumes "ok c"
    and "write_result w (written w) msg = (int (length msg), None)"
    and "read_result w (written w @ [msg]) = (dgram, None)"
  shows "sendRequest c msg w
    = Returns ((take 4096 dgram, None), w\<lparr>written := written w @ [msg]\<rparr>)"
proof -
  from assms(1) obtain conn s where "c = Some conn" and "uconn conn = Some s"
    by (auto simp: ok_def split: option.splits)
  with assms show ?thesis
    by (simp add: sendRequest_def uconn_Write_def uconn_Read_def)
qed

lemma sendRequestOk_not_ok:
  "\<not> ok c \<Longrightarrow> sendRequestOk c msg w = Returns (Some EINVAL, w)"
  by (simp add: sendRequestOk_def sendRequest_not_ok)

lemma sendRequestOk_ok_writes:
  assumes "ok c"
  shows "\<exists>e w1. sendRequestOk c msg w = Returns (e, w1) \<and> written w1 = written w @ [msg]"
proof -
  from sendRequest_ok_writes [OF assms] obtain r w1
    where "sendRequest c msg w = Returns (r, w1)" and "written w1 = written w @ [msg]"
    by blast
  then show ?thesis
    by (cases r) (simp add: sendRequestOk_def)
qed

text \<open>
  C1. When the transaction succeeds with the reply \<open>reply\<close>, \<open>sendRequestOk\<close> returns no
  error if and only if \<open>reply\<close> is exactly the three bytes \<open>OK\<newline>\<close>; for every
  other reply it returns the error of \<open>fmt.Errorf\<close> whose message is the reply itself.
\<close>

theorem sendRequestOk_reply:
  assumes "sendRequest c msg w = Returns ((reply, None), w1)"
  shows "\<exists>err. sendRequestOk c msg w = Returns (err, w1)
           \<and> (err = None) = (reply = ''OK\<newline>'')
           \<and> (if reply = ''OK\<newline>'' then err = None else err = Some (Errorf reply))"
  using assms by (auto simp: sendRequestOk_def checkReplyOk_def)

theorem sendRequestOk_reply_witness:
  "sendRequest conn0 ''SAVE_CONFIG'' (scripted [''FAIL\<newline>''])
     = Returns ((''FAIL\<newline>'', None), (scripted [''FAIL\<newline>''])\<lparr>written := [''SAVE_CONFIG'']\<rparr>)
   \<and> sendRequestOk conn0 ''SAVE_CONFIG'' (scripted [''FAIL\<newline>''])
     = Returns (Some (Errorf ''FAIL\<newline>''), (scripted [''FAIL\<newline>''])\<lparr>written := [''SAVE_CONFIG'']\<rparr>)"
proof -
  have h: "sendRequest conn0 ''SAVE_CONFIG'' (scripted [''FAIL\<newline>''])
     = Returns ((''FAIL\<newline>'', None), (scripted [''FAIL\<newline>''])\<lparr>written := [''SAVE_CONFIG'']\<rparr>)"
    by (simp add: sendRequest_def ok_def conn0_def scripted_def uconn_Write_def uconn_Read_def)
  from sendRequestOk_reply [OF h] h show ?thesis
    by auto
qed

text \<open>
  C5. When the transaction succeeds with the reply \<open>reply\<close>, \<open>Ping\<close> returns no error if
  and only if \<open>reply\<close> is exactly \<open>PONG\<newline>\<close>; for every other reply it returns an
  error whose message is \<open>Received unexpected reply: \<close> followed by the reply, so the
  message contains the raw reply.
\<close>

theorem Ping_reply:
  assumes "sendRequest c ''PING'' w = Returns ((reply, None), w1)"
  shows "\<exists>err. Ping c w = Returns (err, w1)
           \<and> (err = None) = (reply = ''PONG\<newline>'')
           \<and> (if reply = ''PONG\<newline>'' then err = None
               else err = Some (Errorf (''Received unexpected reply: '' @ reply)))"
  using assms by (auto simp: Ping_def)

theorem Ping_reply_witness:
  "sendRequest conn0 ''PING'' (scripted [''PONG''])
     = Returns ((''PONG'', None), (scripted [''PONG''])\<lparr>written := [''PING'']\<rparr>)
   \<and> Ping conn0 (scripted [''PONG''])
     = Returns (Some (Errorf ''Received unexpected reply: PONG''), (scripted [''PONG''])\<lparr>written := [''PING'']\<rparr>)"
proof -
  have h: "sendRequest conn0 ''PING'' (scripted [''PONG''])
     = Returns ((''PONG'', None), (scripted [''PONG''])\<lparr>written := [''PING'']\<rparr>)"
    by (simp add: sendRequest_def ok_def conn0_def scripted_def uconn_Write_def uconn_Read_def)
  from Ping_reply [OF h] h show ?thesis
    by auto
qed

subsection \<open>Closing the connection\<close>

text \<open>
  C7. \<open>Close\<close> on a nil \<open>*Conn\<close> panics: the guard \<open>c.ok()\<close> keeps the socket from being
  closed, but \<open>os.Remove(c.localSock)\<close> after it reads a field of the nil pointer.
\<close>

theorem Close_nil_panics:
  "Close None w = Panics"
  by (simp add: Close_def ok_def)

theorem Close_nil_panics_witness:
  "Close None (scripted []) = Panics"
  using Close_nil_panics [of "scripted []"] by simp

text \<open>A connection that is not nil and has no socket is closed without a panic and without
  a call of \<open>Close\<close> on a socket: only the file is removed.\<close>

lemma Close_without_socket:
  "uconn conn = None \<Longrightarrow>
   Close (Some conn) w = Returns (None, w\<lparr>removed := removed w @ [localSock conn]\<rparr>)"
  by (simp add: Close_def ok_def os_Remove_def)

text \<open>
  C8. For every valid connection \<open>Close\<close> calls \<open>os.Remove\<close> on the local endpoint path,
  once, whatever closing the socket returned, and returns exactly what closing the socket
  returned: the result of \<open>os.Remove\<close> takes no part in it.
\<close>

theorem Close_valid:
  assumes "ok (Some conn)"
  shows "Close (Some conn) w
    = Returns (map_option SysError (close_result w (closes w)),
        w\<lparr>closes := Suc (closes w), removed := removed w @ [localSock conn]\<rparr>)"
  using assms
  by (auto simp: Close_def ok_def uconn_Close_def os_Remove_def)

theorem Close_valid_witness:
  "ok conn0
   \<and> Close conn0 (broken [])
     = Returns (Some (SysError ''input/output error''),
         (broken [])\<lparr>closes := 1, removed := [''/tmp/wpa_supplicant123'']\<rparr>)
   \<and> remove_result (broken []) ''/tmp/wpa_supplicant123'' = Some ''permission denied''"
proof -
  have h: "ok (Some \<lparr>uconn = Some 3, localSock = ''/tmp/wpa_supplicant123''\<rparr>)"
    by (simp add: ok_def)
  from Close_valid [OF h, of "broken []"] h show ?thesis
    by (simp add: conn0_def broken_def scripted_def)
qed

subsection \<open>Parsing the replies\<close>

lemma Atoi_error_value:
  assumes "Atoi s = (i, Some e)"
  shows "i = 0 \<or> i = 2 ^ 63 - 1 \<or> i = - (2 ^ 63)"
  using assms
  by (auto simp: Atoi_def Let_def split: list.splits sum.splits num_err.splits if_splits)

text \<open>
  C2. After a successful transaction \<open>AddNetwork\<close> returns what \<open>strconv.Atoi\<close> gives on
  the trimmed reply, value and error: the id 5 and no error for the reply \<open>5\<newline>\<close>;
  and whenever the reply does not parse, the id beside the parse error is \<open>Atoi\<close>'s, never
  \<open>-1\<close> (it is 0 for a reply that is no number, as for \<open>FAIL\<newline>\<close>).
\<close>

theorem AddNetwork_reply:
  assumes "sendRequest c ''ADD_NETWORK'' w = Returns ((reply, None), w1)"
  shows "AddNetwork c w = Returns (Atoi (TrimSpace reply), w1)
         \<and> (reply = ''5\<newline>'' \<longrightarrow> AddNetwork c w = Returns ((5, None), w1))
         \<and> (\<forall>i e. Atoi (TrimSpace reply) = (i, Some e) \<longrightarrow> i \<noteq> - 1)"
proof -
  have run: "AddNetwork c w = Returns (Atoi (TrimSpace reply), w1)"
    using assms by (simp add: AddNetwork_def)
  have five: "Atoi (TrimSpace ''5\<newline>'') = (5, None)"
    by (simp add: TrimSpace_def trimLeft.simps leading_def spaces_def Atoi_def isDigit_def
        digitVal_def maxUint64_def)
  have "i \<noteq> - 1" if "Atoi (TrimSpace reply) = (i, Some e)" for i e
    using Atoi_error_value [OF that] by auto
  with run five show ?thesis
    by auto
qed

theorem AddNetwork_reply_witness:
  "sendRequest conn0 ''ADD_NETWORK'' (scripted [''FAIL\<newline>''])
     = Returns ((''FAIL\<newline>'', None), (scripted [''FAIL\<newline>''])\<lparr>written := [''ADD_NETWORK'']\<rparr>)
   \<and> AddNetwork conn0 (scripted [''FAIL\<newline>''])
     = Returns ((0, Some (NumError ''Atoi'' ''FAIL'' ErrSyntax)),
         (scripted [''FAIL\<newline>''])\<lparr>written := [''ADD_NETWORK'']\<rparr>)
   \<and> AddNetwork conn0 (scripted [''5\<newline>''])
     = Returns ((5, None), (scripted [''5\<newline>''])\<lparr>written := [''ADD_NETWORK'']\<rparr>)"
proof -
  have h: "sendRequest conn0 ''ADD_NETWORK'' (scripted [''FAIL\<newline>''])
     = Returns ((''FAIL\<newline>'', None), (scripted [''FAIL\<newline>''])\<lparr>written := [''ADD_NETWORK'']\<rparr>)"
    by (simp add: sendRequest_def ok_def conn0_def scripted_def uconn_Write_def uconn_Read_def)
  have g: "sendRequest conn0 ''ADD_NETWORK'' (scripted [''5\<newline>''])
     = Returns ((''5\<newline>'', None), (scripted [''5\<newline>''])\<lparr>written := [''ADD_NETWORK'']\<rparr>)"
    by (simp add: sendRequest_def ok_def conn0_def scripted_def uconn_Write_def uconn_Read_def)
  have a: "Atoi (TrimSpace ''FAIL\<newline>'') = (0, Some (NumError ''Atoi'' ''FAIL'' ErrSyntax))"
    by (simp add: TrimSpace_def trimLeft.simps leading_def spaces_def Atoi_def isDigit_def
        digitVal_def maxUint64_def)
  from AddNetwork_reply [OF g]
  have f: "AddNetwork conn0 (scripted [''5\<newline>''])
     = Returns ((5, None), (scripted [''5\<newline>''])\<lparr>written := [''ADD_NETWORK'']\<rparr>)"
    by blast
  from AddNetwork_reply [OF h] h a f show ?thesis
    by simp
qed

subsection \<open>Counting the networks\<close>

lemma Count_append: "Count (xs @ ys) sep = Count xs sep + Count ys sep"
  by (simp add: Count_def)

lemma Count_absent: "sep \<notin> set s \<Longrightarrow> Count s sep = 0"
  by (induction s) (auto simp: Count_def)

lemma Count_Cons: "Count (c # s) sep = (if c = sep then 1 else 0) + Count s sep"
  by (simp add: Count_def)

lemma Count_lines:
  "\<forall>l \<in> set ls. sep \<notin> set l \<Longrightarrow> Count (concat (map (\<lambda>l. l @ [sep]) ls)) sep = int (length ls)"
proof (induction ls)
  case Nil
  show ?case by (simp add: Count_def)
next
  case (Cons l ls)
  then have "Count l sep = 0"
    by (simp add: Count_absent)
  with Cons show ?case
    by (simp add: Count_append Count_Cons)
qed

text \<open>
  C3. After a successful \<open>LIST_NETWORKS\<close> transaction \<open>NumOfNetworks\<close> returns, with no
  error, the number of line feeds of the reply less one; so for a reply made of a header
  line and N data lines, each ended by a line feed, it returns N.
\<close>

theorem NumOfNetworks_counts_rows:
  assumes "ListNetworks c w = Returns ((reply, None), w1)"
  shows "NumOfNetworks c w = Returns ((Count reply (CHR 0x0A) - 1, None), w1)
         \<and> (\<forall>header rows.
               reply = concat (map (\<lambda>l. l @ ''\<newline>'') (header # rows))
               \<and> (\<forall>l \<in> set (header # rows). CHR 0x0A \<notin> set l)
               \<longrightarrow> NumOfNetworks c w = Returns ((int (length rows), None), w1))"
proof -
  have run: "NumOfNetworks c w = Returns ((Count reply (CHR 0x0A) - 1, None), w1)"
    using assms by (simp add: NumOfNetworks_def)
  have "Count reply (CHR 0x0A) - 1 = int (length rows)"
    if "reply = concat (map (\<lambda>l. l @ ''\<newline>'') (header # rows))"
      and "\<forall>l \<in> set (header # rows). CHR 0x0A \<notin> set l" for header rows
    using Count_lines [OF that(2)] that(1) by simp
  with run show ?thesis
    by auto
qed

theorem NumOfNetworks_counts_rows_witness:
  "ListNetworks conn0 (scripted [listing])
     = Returns ((listing, None), (scripted [listing])\<lparr>written := [''LIST_NETWORKS'']\<rparr>)
   \<and> listing = concat (map (\<lambda>l. l @ ''\<newline>'')
        [''network id / ssid / bssid / flags'', ''0 foo any'', ''1 bar any''])
   \<and> NumOfNetworks conn0 (scripted [listing])
     = Returns ((2, None), (scripted [listing])\<lparr>written := [''LIST_NETWORKS'']\<rparr>)"
proof -
  have h: "ListNetworks conn0 (scripted [listing])
     = Returns ((listing, None), (scripted [listing])\<lparr>written := [''LIST_NETWORKS'']\<rparr>)"
    by (simp add: ListNetworks_def sendRequest_def ok_def conn0_def scripted_def uconn_Write_def
        uconn_Read_def listing_def)
  have l: "listing = concat (map (\<lambda>l. l @ ''\<newline>'')
        (''network id / ssid / bssid / flags'' # [''0 foo any'', ''1 bar any'']))"
    by (simp add: listing_def)
  have n: "\<forall>l \<in> set (''network id / ssid / bssid / flags'' # [''0 foo any'', ''1 bar any'']).
             CHR 0x0A \<notin> set l"
    by simp
  from NumOfNetworks_counts_rows [OF h] l n
  have "NumOfNetworks conn0 (scripted [listing])
     = Returns ((int (length [''0 foo any'', ''1 bar any'']), None),
         (scripted [listing])\<lparr>written := [''LIST_NETWORKS'']\<rparr>)"
    by blast
  with h l show ?thesis
    by simp
qed

text \<open>
  C10. After a successful \<open>LIST_NETWORKS\<close> transaction whose reply holds no line feed
  (the empty reply is one), \<open>NumOfNetworks\<close> returns \<open>-1\<close> with no error.
\<close>

theorem NumOfNetworks_no_newline:
  assumes "ListNetworks c w = Returns ((reply, None), w1)"
    and "CHR 0x0A \<notin> set reply"
  shows "NumOfNetworks c w = Returns ((- 1, None), w1)"
  using assms by (simp add: NumOfNetworks_def Count_absent)

theorem NumOfNetworks_no_newline_witness:
  "ListNetworks conn0 (scripted [])
     = Returns (([], None), (scripted [])\<lparr>written := [''LIST_NETWORKS'']\<rparr>)
   \<and> CHR 0x0A \<notin> set ''''
   \<and> NumOfNetworks conn0 (scripted [])
     = Returns ((- 1, None), (scripted [])\<lparr>written := [''LIST_NETWORKS'']\<rparr>)"
proof -
  have h: "ListNetworks conn0 (scripted [])
     = Returns (([], None), (scripted [])\<lparr>written := [''LIST_NETWORKS'']\<rparr>)"
    by (simp add: ListNetworks_def sendRequest_def ok_def conn0_def scripted_def uconn_Write_def
        uconn_Read_def)
  have n: "CHR 0x0A \<notin> set ''''"
    by simp
  from NumOfNetworks_no_newline [OF h n] h show ?thesis
    by simp
qed

subsection \<open>Setting the WEP keys\<close>

lemma wepKeysFrom_other_format:
  "format \<noteq> KeyASCII \<Longrightarrow> format \<noteq> KeyHex \<Longrightarrow> wepKeysFrom c nid format i keys w = Returns (None, w)"
  by (induction keys arbitrary: i) simp_all

text \<open>
  C9. With a format that is neither \<open>KeyASCII\<close> nor \<open>KeyHex\<close>, \<open>SetNetworkWepKeys\<close> returns
  no error and leaves the world as it was, for every connection, id and list of keys: no
  request is issued.
\<close>

theorem SetNetworkWepKeys_other_format:
  assumes "format \<noteq> KeyASCII" and "format \<noteq> KeyHex"
  shows "SetNetworkWepKeys c nid format keys w = Returns (None, w)"
  using assms by (simp add: SetNetworkWepKeys_def wepKeysFrom_other_format)

theorem SetNetworkWepKeys_other_format_witness:
  "(2::int) \<noteq> KeyASCII \<and> (2::int) \<noteq> KeyHex
   \<and> SetNetworkWepKeys conn0 0 2 [''k0'', ''k1''] (scripted []) = Returns (None, scripted [])"
proof -
  have a: "(2::int) \<noteq> KeyASCII" and b: "(2::int) \<noteq> KeyHex"
    by (simp_all add: KeyASCII_def KeyHex_def)
  from SetNetworkWepKeys_other_format [OF a b] a b show ?thesis
    by simp
qed

lemma utoa_0: "utoa 0 = ''0''"
  by (simp add: utoa.simps digit_def)

lemma utoa_1: "utoa (Suc 0) = ''1''"
  by (simp add: utoa.simps digit_def)

text \<open>
  C4. On a valid connection \<open>SetNetworkWepKeys\<close> with the format \<open>KeyASCII\<close> and the keys
  \<open>k0\<close>, \<open>k1\<close> first writes the request \<open>SET_NETWORK <id> wep_key0 "k0"\<close>. If that
  \<open>SET_NETWORK\<close> fails, its error is returned and nothing more is written. Otherwise the
  request \<open>SET_NETWORK <id> wep_key1 "k1"\<close> is written next, these two requests are all
  that is written, and the outcome of the second is returned.
\<close>

theorem SetNetworkWepKeys_ascii_pair:
  assumes "ok c"
  shows "\<exists>e0 w1.
           SetNetwork c nid ''wep_key0'' ([CHR 0x22] @ k0 @ [CHR 0x22]) w = Returns (e0, w1)
           \<and> written w1 = written w
               @ [''SET_NETWORK '' @ itoa nid @ '' wep_key0 '' @ [CHR 0x22] @ k0 @ [CHR 0x22]]
           \<and> (if e0 \<noteq> None
               then SetNetworkWepKeys c nid KeyASCII [k0, k1] w = Returns (e0, w1)
               else (\<exists>e1 w2.
                       SetNetwork c nid ''wep_key1'' ([CHR 0x22] @ k1 @ [CHR 0x22]) w1
                         = Returns (e1, w2)
                       \<and> SetNetworkWepKeys c nid KeyASCII [k0, k1] w = Returns (e1, w2)
                       \<and> written w2 = written w
                           @ [''SET_NETWORK '' @ itoa nid @ '' wep_key0 '' @ [CHR 0x22] @ k0 @ [CHR 0x22],
                              ''SET_NETWORK '' @ itoa nid @ '' wep_key1 '' @ [CHR 0x22] @ k1 @ [CHR 0x22]]))"
proof -
  let ?q0 = "[CHR 0x22] @ k0 @ [CHR 0x22]" and ?q1 = "[CHR 0x22] @ k1 @ [CHR 0x22]"
  from sendRequestOk_ok_writes [OF assms] obtain e0 w1
    where s0: "SetNetwork c nid ''wep_key0'' ?q0 w = Returns (e0, w1)"
      and l0: "written w1 = written w @ [''SET_NETWORK '' @ itoa nid @ '' wep_key0 '' @ ?q0]"
    unfolding SetNetwork_def by fastforce
  from sendRequestOk_ok_writes [OF assms] obtain e1 w2
    where s1: "SetNetwork c nid ''wep_key1'' ?q1 w1 = Returns (e1, w2)"
      and l1: "written w2 = written w1 @ [''SET_NETWORK '' @ itoa nid @ '' wep_key1 '' @ ?q1]"
    unfolding SetNetwork_def by fastforce
  have run: "SetNetworkWepKeys c nid KeyASCII [k0, k1] w
    = (if e0 \<noteq> None then Returns (e0, w1) else Returns (e1, w2))"
    using s0 s1
    by (cases e1) (simp_all add: SetNetworkWepKeys_def SetNetworkQuoted_def utoa_0 utoa_1)
  show ?thesis
  proof (cases "e0 \<noteq> None")
    case True
    with s0 l0 run show ?thesis
      by (intro exI [of _ e0] exI [of _ w1]) simp
  next
    case False
    with s0 l0 s1 l1 run show ?thesis
      by (intro exI [of _ e0] exI [of _ w1]) simp
  qed
qed

theorem SetNetworkWepKeys_ascii_pair_witness:
  \<open>ok conn0
   \<and> SetNetworkWepKeys conn0 7 KeyASCII [''k0'', ''k1''] (scripted [''OK\<newline>'', ''OK\<newline>''])
     = Returns (None, (scripted [''OK\<newline>'', ''OK\<newline>''])
         \<lparr>written := [''SET_NETWORK 7 wep_key0 "k0"'', ''SET_NETWORK 7 wep_key1 "k1"'']\<rparr>)\<close>
proof -
  have h: "ok conn0"
    by (simp add: ok_def conn0_def)
  have \<open>SetNetworkWepKeys conn0 7 KeyASCII [''k0'', ''k1''] (scripted [''OK\<newline>'', ''OK\<newline>''])
     = Returns (None, (scripted [''OK\<newline>'', ''OK\<newline>''])
         \<lparr>written := [''SET_NETWORK 7 wep_key0 "k0"'', ''SET_NETWORK 7 wep_key1 "k1"'']\<rparr>)\<close>
    using SetNetworkWepKeys_ascii_pair [OF h, of 7 "''k0''" "scripted [''OK\<newline>'', ''OK\<newline>'']" "''k1''"]
    by (simp add: SetNetworkWepKeys_def SetNetworkQuoted_def SetNetwork_def sendRequestOk_def
        sendRequest_def checkReplyOk_def ok_def conn0_def scripted_def uconn_Write_def
        uconn_Read_def itoa_def utoa.simps digit_def)
  with h show ?thesis
    by simp
qed

subsection \<open>Commands on a connection that has no socket\<close>

lemma wepKeysFrom_not_ok:
  assumes "\<not> ok c"
  shows "wepKeysFrom c nid format i keys w
    = Returns (if keys = [] \<or> (format \<noteq> KeyASCII \<and> format \<noteq> KeyHex) then None else Some EINVAL, w)"
proof (cases keys)
  case Nil
  then show ?thesis by simp
next
  case (Cons val rest)
  show ?thesis
  proof (cases "format = KeyASCII \<or> format = KeyHex")
    case True
    with assms Cons show ?thesis
      by (auto simp: SetNetworkQuoted_def SetNetwork_def sendRequestOk_not_ok)
  next
    case False
    then show ?thesis
      by (simp add: wepKeysFrom_other_format)
  qed
qed

text \<open>
  C6, as amended. On a connection that is nil or has no socket, every command returns
  without a panic and leaves the world as it was, so that no datagram is written; the error
  it returns is \<open>EINVAL\<close>, except for \<open>SetNetworkWepKeys\<close> with an empty list of keys or a
  format that is neither \<open>KeyASCII\<close> nor \<open>KeyHex\<close>, which returns no error.
\<close>

theorem invoke_not_ok:
  assumes "\<not> ok c"
  shows "\<exists>v. invoke op c w
           = Returns ((v, if sends_nothing op then None else Some EINVAL), w)"
proof (cases op)
  case (OpSetNetworkWepKeys nid format keys)
  with assms show ?thesis
    by (simp add: no_value_def SetNetworkWepKeys_def wepKeysFrom_not_ok)
qed (use assms in \<open>simp_all add: no_value_def text_value_def int_value_def
      sendRequest_not_ok sendRequestOk_not_ok
      SetNetwork_def SetNetworkQuoted_def GetNetwork_def AddNetwork_def RemoveNetwork_def
      RemoveAllNetworks_def SetGlobalParameter_def SelectNetwork_def EnableNetwork_def
      EnableAllNetworks_def DisableNetwork_def DisableAllNetworks_def Reassociate_def
      Reconnect_def ListNetworks_def NumOfNetworks_def Reconfigure_def Status_def
      StatusVerbose_def Ping_def SaveConfig_def Interfaces_def Ifname_def BSS_def\<close>)

theorem invoke_not_ok_witness:
  "\<not> ok unbound
   \<and> invoke OpAddNetwork unbound (scripted []) = Returns ((IntValue (- 1), Some EINVAL), scripted [])
   \<and> invoke OpPing None (scripted []) = Returns ((NoValue, Some EINVAL), scripted [])"
proof -
  have h: "\<not> ok unbound" and n: "\<not> ok None"
    by (simp_all add: ok_def unbound_def)
  from invoke_not_ok [OF h, of OpAddNetwork "scripted []"]
    invoke_not_ok [OF n, of OpPing "scripted []"] h
  show ?thesis
    by (auto simp: int_value_def no_value_def AddNetwork_def Ping_def sendRequest_def ok_def unbound_def)
qed

text \<open>The claim C6 as it was stated fails: on a nil connection \<open>SetNetworkWepKeys\<close> with no
  key returns no error.\<close>

theorem every_operation_EINVAL_counterexample:
  "\<not> ok None
   \<and> invoke (OpSetNetworkWepKeys 0 KeyASCII []) None (scripted [])
     = Returns ((NoValue, None), scripted [])"
  by (simp add: ok_def no_value_def SetNetworkWepKeys_def)

end
